theory Spec2Isabelle
  imports Complex_Main "HOL-Library.Word" "HOL-Library.Monad_Syntax" "HOL-Library.Multiset"
begin

section \<open>JavaScript values\<close>

text \<open>
  A JavaScript string is a sequence of UTF-16 code units; \<open>length\<close>, \<open>trim\<close> and the
  regular expression \<open>/\s+/\<close> all work on code units. Property names are only ever
  compared with the ASCII literals of the source, so they are kept as \<open>string\<close>.
\<close>

type_synonym jschar = "16 word"
type_synonym jstring = "jschar list"

definition js :: "string \<Rightarrow> jstring" where
  "js s = map of_char s"

text \<open>
  The value of a parsed JSON document. A number is the (rational) value of the finite
  double that \<open>JSON.parse\<close> produced. The value of property \<open>k\<close> of \<open>JObj kvs\<close> is
  \<open>map_of kvs k\<close>, \<open>None\<close> standing for \<open>undefined\<close>.
\<close>

datatype json =
    JNull
  | JBool bool
  | JNum rat
  | JStr jstring
  | JArr "json list"
  | JObj "(string \<times> json) list"

fun string_of_nat :: "nat \<Rightarrow> string" where
  "string_of_nat n =
     (if n < 10 then [char_of (48 + n)]
      else string_of_nat (n div 10) @ [char_of (48 + n mod 10)])"

text \<open>The own enumerable properties copied by the object spread \<open>{...v}\<close>.\<close>

fun objectEntries :: "json \<Rightarrow> (string \<times> json) list" where
  "objectEntries (JObj kvs) = kvs"
| "objectEntries (JArr xs) = zip (map string_of_nat [0..<length xs]) xs"
| "objectEntries (JStr s) = zip (map string_of_nat [0..<length s]) (map (\<lambda>c. JStr [c]) s)"
| "objectEntries _ = []"

subsection \<open>White space, \<open>trim\<close>, \<open>split(/\s+/)\<close> and \<open>parseInt\<close>\<close>

text \<open>
  ECMAScript's WhiteSpace and LineTerminator code points: the set that \<open>\s\<close> matches,
  that \<open>String.prototype.trim\<close> strips and that \<open>parseInt\<close> skips.
\<close>

definition isWhiteSpace :: "jschar \<Rightarrow> bool" where
  "isWhiteSpace c \<longleftrightarrow>
     c \<in> set [0x0009, 0x000A, 0x000B, 0x000C, 0x000D, 0x0020, 0x00A0, 0x1680,
               0x2028, 0x2029, 0x202F, 0x205F, 0x3000, 0xFEFF]
     \<or> (0x2000 \<le> c \<and> c \<le> 0x200A)"

definition trim :: "jstring \<Rightarrow> jstring" where
  "trim s = rev (dropWhile isWhiteSpace (rev (dropWhile isWhiteSpace s)))"

text \<open>
  \<open>s.split(/\s+/)\<close>: scan left to right; \<open>cur\<close> holds (reversed) the piece that began
  after the last separator. A white-space character starts a separator, which extends
  over the whole run; the piece before it is emitted. The piece left at the end of the
  string is emitted too, so \<open>"".split(/\s+/)\<close> is \<open>[""]\<close>.
\<close>

function splitFrom :: "jstring \<Rightarrow> jstring \<Rightarrow> jstring list" where
  "splitFrom cur [] = [rev cur]"
| "splitFrom cur (c # cs) =
     (if isWhiteSpace c then rev cur # splitFrom [] (dropWhile isWhiteSpace cs)
      else splitFrom (c # cur) cs)"
  by pat_completeness auto
termination
  by (relation "measure (\<lambda>(cur, s). length s)")
     (auto simp: length_dropWhile_le le_imp_less_Suc)

definition splitWhitespace :: "jstring \<Rightarrow> jstring list" where
  "splitWhitespace s = splitFrom [] s"

definition digitValue :: "jschar \<Rightarrow> nat option" where
  "digitValue c =
     (if 0x30 \<le> c \<and> c \<le> 0x39 then Some (unat c - 0x30)
      else if 0x61 \<le> c \<and> c \<le> 0x7A then Some (unat c - 0x61 + 10)
      else if 0x41 \<le> c \<and> c \<le> 0x5A then Some (unat c - 0x41 + 10)
      else None)"

definition isRadixDigit :: "nat \<Rightarrow> jschar \<Rightarrow> bool" where
  "isRadixDigit R c = (case digitValue c of None \<Rightarrow> False | Some d \<Rightarrow> d < R)"

definition radixValue :: "nat \<Rightarrow> jstring \<Rightarrow> nat" where
  "radixValue R Z = foldl (\<lambda>acc c. acc * R + (case digitValue c of None \<Rightarrow> 0 | Some d \<Rightarrow> d)) 0 Z"

text \<open>
  \<open>parseInt(s)\<close> with no radix argument; \<open>None\<close> is \<open>NaN\<close>. The result is the exact
  integer; JavaScript rounds integers beyond \<open>2^53\<close> to the nearest double.
\<close>

definition parseInt :: "jstring \<Rightarrow> int option" where
  "parseInt s =
     (let S = dropWhile isWhiteSpace s;
          sign = (if S \<noteq> [] \<and> hd S = 0x2D then - 1 else 1 :: int);
          S1 = (if S \<noteq> [] \<and> (hd S = 0x2B \<or> hd S = 0x2D) then tl S else S);
          hex = (take 2 S1 = [0x30, 0x78] \<or> take 2 S1 = [0x30, 0x58]);
          R = (if hex then 16 else 10 :: nat);
          S2 = (if hex then drop 2 S1 else S1);
          Z = takeWhile (isRadixDigit R) S2
      in if Z = [] then None else Some (sign * int (radixValue R Z)))"

text \<open>
  The decimal numeral of a natural number: what \<open>String(n)\<close> is for an integer
  \<open>0 \<le> n < 10^21\<close>, and what a client writes into a path or a query string.
\<close>

definition digitChar :: "nat \<Rightarrow> jschar" where
  "digitChar d = of_nat (48 + d)"

fun decimal :: "nat \<Rightarrow> jstring" where
  "decimal n =
     (if n < 10 then [digitChar n]
      else decimal (n div 10) @ [digitChar (n mod 10)])"

declare decimal.simps [simp del]

section \<open>Word counting (client)\<close>

text \<open>
  \<open>countWords\<close> of the tool components:
  \<^verbatim>\<open>text.trim() === "" ? 0 : text.trim().split(/\s+/).length\<close>
\<close>

definition countWords :: "jstring \<Rightarrow> nat" where
  "countWords t = (if trim t = [] then 0 else length (splitWhitespace (trim t)))"

text \<open>
  The count that the \<open>WordCounter\<close> component displays:
  \<^verbatim>\<open>if (!text) 0 else text.trim().split(/\s+/).filter(word => word.length > 0).length\<close>
\<close>

definition WordCounter :: "jstring \<Rightarrow> nat" where
  "WordCounter t =
     (if t = [] then 0
      else length (filter (\<lambda>word. length word > 0) (splitWhitespace (trim t))))"

text \<open>
  The specification's reading, independent of the code: the number of maximal runs of
  non-white-space characters. A run begins at every non-white-space character that is
  the first of the text or follows a white-space character; \<open>prev\<close> tells whether the
  position before the current one is the start of the text or white space.
\<close>

fun runStarts :: "bool \<Rightarrow> jstring \<Rightarrow> nat" where
  "runStarts prev [] = 0"
| "runStarts prev (c # cs) =
     (if \<not> isWhiteSpace c \<and> prev then 1 else 0) + runStarts (isWhiteSpace c) cs"

definition maximalRuns :: "jstring \<Rightarrow> nat" where
  "maximalRuns t = runStarts True t"


section \<open>Shared schema\<close>

subsection \<open>Validators\<close>

text \<open>
  A validator takes the value of a property (\<open>None\<close> when the property is undefined)
  and returns the parsed value, or \<open>None\<close> when \<open>safeParse\<close> reports an issue. Only
  the \<open>success\<close> flag and the data of \<open>safeParse\<close> are modelled, not the issue list.
\<close>

type_synonym 'a validator = "json option \<Rightarrow> 'a option"

fun z_string :: "jstring validator" where
  "z_string (Some (JStr s)) = Some s"
| "z_string _ = None"

definition z_string_min :: "nat \<Rightarrow> jstring validator" where
  "z_string_min n v =
     (case z_string v of None \<Rightarrow> None
      | Some s \<Rightarrow> if n \<le> length s then Some s else None)"

fun z_number :: "rat validator" where
  "z_number (Some (JNum q)) = Some q"
| "z_number _ = None"

definition z_number_min_max :: "rat \<Rightarrow> rat \<Rightarrow> rat validator" where
  "z_number_min_max lo hi v =
     (case z_number v of None \<Rightarrow> None
      | Some q \<Rightarrow> if lo \<le> q \<and> q \<le> hi then Some q else None)"

definition z_enum :: "jstring list \<Rightarrow> jstring validator" where
  "z_enum vs v =
     (case z_string v of None \<Rightarrow> None
      | Some s \<Rightarrow> if s \<in> set vs then Some s else None)"

definition z_optional :: "'a validator \<Rightarrow> 'a option validator" where
  "z_optional p v = (case v of None \<Rightarrow> Some None | Some x \<Rightarrow> map_option Some (p v))"

definition z_default :: "'a \<Rightarrow> 'a validator \<Rightarrow> 'a validator" where
  "z_default d p v = (case v of None \<Rightarrow> Some d | Some x \<Rightarrow> p v)"

text \<open>Nullable and optional: \<open>null\<close> and \<open>undefined\<close> both give the SQL \<open>NULL\<close>.\<close>

definition z_nullable_optional :: "'a validator \<Rightarrow> 'a option validator" where
  "z_nullable_optional p v =
     (case v of None \<Rightarrow> Some None | Some JNull \<Rightarrow> Some None
      | Some x \<Rightarrow> map_option Some (p v))"

text \<open>
  The validator that \<open>createInsertSchema\<close> derives for an \<open>integer\<close> column: a number
  that is an integer within the 32-bit signed range.
\<close>

definition z_int32 :: "int validator" where
  "z_int32 v =
     (case z_number v of None \<Rightarrow> None
      | Some q \<Rightarrow>
          if q = of_int \<lfloor>q\<rfloor> \<and> - 2147483648 \<le> q \<and> q \<le> 2147483647
          then Some \<lfloor>q\<rfloor> else None)"

subsection \<open>Content types and the transform request\<close>

definition contentTypes :: "jstring list" where
  "contentTypes = [js ''expand'', js ''summarize'', js ''similar'', js ''template'']"

record AIParameters =
  temperature :: rat
  topP :: rat
  topK :: rat
  maxOutputTokens :: rat

text \<open>
  \<open>aiParametersSchema\<close>: an object whose four properties are range-checked numbers
  with defaults (the defaults stand for the doubles nearest to 0.7 and 0.8).
\<close>

fun aiParametersSchema :: "AIParameters validator" where
  "aiParametersSchema (Some (JObj kvs)) =
     do {
       t \<leftarrow> z_default (7 / 10) (z_number_min_max 0 1) (map_of kvs ''temperature'');
       p \<leftarrow> z_default (8 / 10) (z_number_min_max 0 1) (map_of kvs ''topP'');
       k \<leftarrow> z_default 40 (z_number_min_max 1 100) (map_of kvs ''topK'');
       m \<leftarrow> z_default 2048 (z_number_min_max 50 8192) (map_of kvs ''maxOutputTokens'');
       Some \<lparr>temperature = t, topP = p, topK = k, maxOutputTokens = m\<rparr>
     }"
| "aiParametersSchema _ = None"

definition contentTypeSchema :: "jstring validator" where
  "contentTypeSchema = z_enum contentTypes"

record ContentValidation =
  cv_text :: jstring
  cv_contentType :: jstring
  cv_tone :: "jstring option"
  cv_audience :: "jstring option"
  cv_aiParameters :: "AIParameters option"

text \<open>\<open>contentValidationSchema.safeParse\<close> on a request body.\<close>

fun contentValidationSchema :: "json \<Rightarrow> ContentValidation option" where
  "contentValidationSchema (JObj kvs) =
     do {
       t \<leftarrow> z_string_min 1 (map_of kvs ''text'');
       ct \<leftarrow> contentTypeSchema (map_of kvs ''contentType'');
       tn \<leftarrow> z_optional z_string (map_of kvs ''tone'');
       au \<leftarrow> z_optional z_string (map_of kvs ''audience'');
       ai \<leftarrow> z_optional aiParametersSchema (map_of kvs ''aiParameters'');
       Some \<lparr>cv_text = t, cv_contentType = ct, cv_tone = tn, cv_audience = au,
             cv_aiParameters = ai\<rparr>
     }"
| "contentValidationSchema _ = None"

subsection \<open>Tables\<close>

record User =
  user_id :: int
  username :: jstring
  email :: jstring
  password :: jstring
  fullName :: "jstring option"
  profileImage :: "jstring option"
  theme :: "jstring option"
  user_createdAt :: int

record InsertContent =
  userId :: int
  title :: jstring
  originalContent :: jstring
  transformedContent :: jstring
  contentType :: jstring
  originalWordCount :: int
  transformedWordCount :: int
  metadata :: "jstring option"

record Content = InsertContent +
  content_id :: int
  createdAt :: int

text \<open>
  \<open>insertContentSchema\<close>: the insert schema of table \<open>contents\<close> restricted to the
  picked columns. \<open>text\<close> columns that are \<open>notNull\<close> are required strings, \<open>integer\<close>
  columns are 32-bit integers, the nullable \<open>metadata\<close> may be absent or null.
  Properties that are not picked are stripped.
\<close>

fun insertContentSchema :: "json \<Rightarrow> InsertContent option" where
  "insertContentSchema (JObj kvs) =
     do {
       uid \<leftarrow> z_int32 (map_of kvs ''userId'');
       ti \<leftarrow> z_string (map_of kvs ''title'');
       oc \<leftarrow> z_string (map_of kvs ''originalContent'');
       tc \<leftarrow> z_string (map_of kvs ''transformedContent'');
       ct \<leftarrow> z_string (map_of kvs ''contentType'');
       ow \<leftarrow> z_int32 (map_of kvs ''originalWordCount'');
       tw \<leftarrow> z_int32 (map_of kvs ''transformedWordCount'');
       md \<leftarrow> z_nullable_optional z_string (map_of kvs ''metadata'');
       Some \<lparr>userId = uid, title = ti, originalContent = oc, transformedContent = tc,
             contentType = ct, originalWordCount = ow, transformedWordCount = tw,
             metadata = md\<rparr>
     }"
| "insertContentSchema _ = None"


section \<open>Storage\<close>

text \<open>
  The database: the two tables in insertion order and the sequence that feeds
  \<open>contents.id\<close>. The declared constraints are the primary keys, the unique
  \<open>username\<close> and \<open>email\<close>, and the foreign key from \<open>contents.user_id\<close> to \<open>users.id\<close>;
  a statement that would break one of them throws and changes no row. A statement
  also throws when a value bound to it does not fit the type the engine expects. A
  lost connection is not modelled.
\<close>

record Db =
  users :: "User list"
  contents :: "Content list"
  contents_id_seq :: int

definition usersConstraints :: "User list \<Rightarrow> bool" where
  "usersConstraints us \<longleftrightarrow>
     distinct (map user_id us) \<and> distinct (map username us) \<and> distinct (map email us)"

definition contentsForeignKey :: "User list \<Rightarrow> Content list \<Rightarrow> bool" where
  "contentsForeignKey us cs \<longleftrightarrow> list_all (\<lambda>c. userId c \<in> set (map user_id us)) cs"

text \<open>The range of the column type \<open>integer\<close>.\<close>

definition int4 :: "int \<Rightarrow> bool" where
  "int4 i \<longleftrightarrow> - 2147483648 \<le> i \<and> i \<le> 2147483647"

text \<open>
  What the sources do not determine, as parameters. A value bound to the integer
  column \<open>id\<close> that is not a number, and a value bound to a text column that is neither
  null nor a string of the Basic Multilingual Plane, are converted by the driver and
  the engine: \<open>intParam\<close> and \<open>textParam\<close>, where \<open>None\<close> means that the statement
  fails. A property that names no column is ignored by some versions of the query
  builder and makes others throw: \<open>ignoresUnknown\<close>.
\<close>

record Driver =
  intParam :: "json \<Rightarrow> int option"
  textParam :: "json \<Rightarrow> jstring option"
  ignoresUnknown :: bool

definition userColumns :: "string list" where
  "userColumns = [''id'', ''username'', ''email'', ''password'', ''fullName'',
                  ''profileImage'', ''theme'', ''createdAt'']"

definition isSurrogate :: "jschar \<Rightarrow> bool" where
  "isSurrogate c \<longleftrightarrow> 0xD800 \<le> c \<and> c \<le> 0xDFFF"

text \<open>A text without the code unit 0 and without surrogate code units.\<close>

definition plainText :: "jstring \<Rightarrow> bool" where
  "plainText s \<longleftrightarrow> list_all (\<lambda>c. c \<noteq> 0 \<and> \<not> isSurrogate c) s"

text \<open>
  The value stored in a text column (\<open>Some None\<close> is \<open>NULL\<close>); the outer \<open>None\<close> means
  that the statement fails, as it does for a string that holds the code unit 0.
\<close>

definition textValue :: "Driver \<Rightarrow> json \<Rightarrow> jstring option option" where
  "textValue driver v =
     (case v of
        JNull \<Rightarrow> Some None
      | JStr s \<Rightarrow>
          if 0 \<in> set s then None
          else if plainText s then Some (Some s)
          else map_option Some (textParam driver v)
      | _ \<Rightarrow> map_option Some (textParam driver v))"

text \<open>A text column that is \<open>notNull\<close>.\<close>

definition notNullText :: "Driver \<Rightarrow> json \<Rightarrow> jstring option" where
  "notNullText driver v = (case textValue driver v of Some (Some s) \<Rightarrow> Some s | _ \<Rightarrow> None)"

text \<open>
  The value stored in the column \<open>id\<close>: a number has to be an integer of the column's
  range, \<open>null\<close> breaks \<open>NOT NULL\<close>.
\<close>

definition idValue :: "Driver \<Rightarrow> json \<Rightarrow> int option" where
  "idValue driver v =
     (case v of
        JNum q \<Rightarrow> if q = of_int \<lfloor>q\<rfloor> \<and> int4 \<lfloor>q\<rfloor> then Some \<lfloor>q\<rfloor> else None
      | JNull \<Rightarrow> None
      | _ \<Rightarrow> intParam driver v)"

text \<open>
  The \<open>SET\<close> clause: for every column the value to store, \<open>None\<close> when the column is not
  set. \<open>password\<close> has no entry, since \<open>safeUserData\<close> has no such property;
  \<open>createdAt\<close> has none, since a statement that would set it always fails (see
  \<open>setClause\<close>).
\<close>

record UserSet =
  set_id :: "int option"
  set_username :: "jstring option"
  set_email :: "jstring option"
  set_fullName :: "jstring option option"
  set_profileImage :: "jstring option option"
  set_theme :: "jstring option option"

definition column :: "(json \<Rightarrow> 'a option) \<Rightarrow> json option \<Rightarrow> 'a option option" where
  "column conv v = (case v of None \<Rightarrow> Some None | Some x \<Rightarrow> map_option Some (conv x))"

text \<open>
  \<open>.set(safeUserData)\<close>: the properties that name a column of \<open>users\<close> are bound to the
  statement. \<open>None\<close> means that the statement fails. It fails
  for every \<open>createdAt\<close> property: the timestamp column converts its value with
  \<open>toISOString\<close>, which no value from a JSON body has, and \<open>null\<close> breaks \<open>NOT NULL\<close>.
\<close>

definition setClause :: "Driver \<Rightarrow> (string \<times> json) list \<Rightarrow> UserSet option" where
  "setClause driver safeUserData =
     (if map_of safeUserData ''createdAt'' \<noteq> None then None
      else do {
        i \<leftarrow> column (idValue driver) (map_of safeUserData ''id'');
        un \<leftarrow> column (notNullText driver) (map_of safeUserData ''username'');
        em \<leftarrow> column (notNullText driver) (map_of safeUserData ''email'');
        fn \<leftarrow> column (textValue driver) (map_of safeUserData ''fullName'');
        pi \<leftarrow> column (textValue driver) (map_of safeUserData ''profileImage'');
        th \<leftarrow> column (textValue driver) (map_of safeUserData ''theme'');
        Some \<lparr>set_id = i, set_username = un, set_email = em, set_fullName = fn,
              set_profileImage = pi, set_theme = th\<rparr>
      })"

definition noColumns :: "UserSet \<Rightarrow> bool" where
  "noColumns s \<longleftrightarrow>
     set_id s = None \<and> set_username s = None \<and> set_email s = None \<and>
     set_fullName s = None \<and> set_profileImage s = None \<and> set_theme s = None"

text \<open>\<open>UPDATE ... SET\<close> on one row: every column that is set is overwritten.\<close>

definition setColumns :: "UserSet \<Rightarrow> User \<Rightarrow> User" where
  "setColumns s u =
     \<lparr>user_id = (case set_id s of None \<Rightarrow> user_id u | Some v \<Rightarrow> v),
      username = (case set_username s of None \<Rightarrow> username u | Some v \<Rightarrow> v),
      email = (case set_email s of None \<Rightarrow> email u | Some v \<Rightarrow> v),
      password = password u,
      fullName = (case set_fullName s of None \<Rightarrow> fullName u | Some v \<Rightarrow> v),
      profileImage = (case set_profileImage s of None \<Rightarrow> profileImage u | Some v \<Rightarrow> v),
      theme = (case set_theme s of None \<Rightarrow> theme u | Some v \<Rightarrow> v),
      user_createdAt = user_createdAt u\<rparr>"

text \<open>
  \<open>DatabaseStorage.updateUser\<close>; \<open>userData\<close> holds the own properties of the argument.
  The destructuring \<^verbatim>\<open>const { password, ...safeUserData } = userData\<close> drops the
  password property. The query builder throws when \<open>safeUserData\<close> has no property
  (\<open>No values to set\<close>) and, in the versions that do not ignore it, when a property
  names no column; the statement fails when a value cannot be bound and when none of
  the properties names a column (the \<open>SET\<close> clause is empty). Otherwise the
  rows whose id is \<open>uid\<close> are updated, subject to the constraints, and the first
  returned row is the result (\<open>None\<close> is \<open>undefined\<close>, when no row matched).
\<close>

definition updateUser ::
  "Driver \<Rightarrow> int \<Rightarrow> (string \<times> json) list \<Rightarrow> Db \<Rightarrow> (string + User option) \<times> Db" where
  "updateUser driver uid userData db =
     (let safeUserData = filter (\<lambda>(k, v). k \<noteq> ''password'') userData in
      if safeUserData = [] then (Inl ''No values to set'', db)
      else if \<not> ignoresUnknown driver
              \<and> list_ex (\<lambda>(k, v). k \<notin> set userColumns) safeUserData
      then (Inl ''query failed'', db)
      else
        case setClause driver safeUserData of
          None \<Rightarrow> (Inl ''query failed'', db)
        | Some s \<Rightarrow>
            if noColumns s then (Inl ''query failed'', db)
            else
              let users' = map (\<lambda>u. if user_id u = uid then setColumns s u else u) (users db);
                  returning = map (setColumns s) (filter (\<lambda>u. user_id u = uid) (users db))
              in if \<not> usersConstraints users' \<or> \<not> contentsForeignKey users' (contents db)
                 then (Inl ''constraint violation'', db)
                 else (Inr (case returning of [] \<Rightarrow> None
                            | updatedUser # _ \<Rightarrow> Some updatedUser),
                       db\<lparr>users := users'\<rparr>))"

text \<open>
  \<open>DatabaseStorage.getContent\<close>: the id is compared with the integer column
  \<open>contents.id\<close>, so the statement fails for an id outside the column's range.
\<close>

definition getContent :: "Db \<Rightarrow> int \<Rightarrow> string + Content option" where
  "getContent db cid =
     (if int4 cid then Inr (find (\<lambda>c. content_id c = cid) (contents db))
      else Inl ''out of range for type integer'')"

text \<open>
  \<open>DatabaseStorage.createContent\<close>: the row gets the next value of the id sequence
  (consumed even when the insert fails) and the current time \<open>now\<close>.
\<close>

definition createContent :: "int \<Rightarrow> InsertContent \<Rightarrow> Db \<Rightarrow> (string + Content) \<times> Db" where
  "createContent now content db =
     (let newContent =
            \<lparr>userId = userId content, title = title content,
             originalContent = originalContent content,
             transformedContent = transformedContent content,
             contentType = contentType content,
             originalWordCount = originalWordCount content,
             transformedWordCount = transformedWordCount content,
             metadata = metadata content,
             content_id = contents_id_seq db, createdAt = now\<rparr>;
          db' = db\<lparr>contents_id_seq := contents_id_seq db + 1\<rparr>
      in if userId content \<notin> set (map user_id (users db))
            \<or> content_id newContent \<in> set (map content_id (contents db))
         then (Inl ''constraint violation'', db')
         else (Inr newContent, db'\<lparr>contents := contents db @ [newContent]\<rparr>))"

text \<open>\<open>ORDER BY created_at DESC\<close>.\<close>

definition orderByCreatedAtDesc :: "Content list \<Rightarrow> Content list" where
  "orderByCreatedAtDesc cs = sort_key (\<lambda>c. - createdAt c) cs"

definition getUserContents :: "Db \<Rightarrow> int \<Rightarrow> Content list" where
  "getUserContents db uid =
     orderByCreatedAtDesc (filter (\<lambda>c. userId c = uid) (contents db))"

definition getUserContentsByType :: "Db \<Rightarrow> int \<Rightarrow> jstring \<Rightarrow> Content list" where
  "getUserContentsByType db uid ct =
     orderByCreatedAtDesc (filter (\<lambda>c. userId c = uid \<and> contentType c = ct) (contents db))"



section \<open>Routes\<close>

text \<open>
  A response is \<open>res.status(n).json(v)\<close> (\<open>res.json(v)\<close> is status 200) or
  \<open>res.status(n).json({ message })\<close>.
\<close>

datatype 'a response = Json nat 'a | Message nat string

fun status :: "'a response \<Rightarrow> nat" where
  "status (Json n v) = n"
| "status (Message n m) = n"

text \<open>
  The middleware \<open>isAuthenticated\<close>: \<open>req.user\<close> is the session's user, \<open>None\<close> when
  the request is not authenticated; \<open>s\<close> is the state that an unauthorized request
  leaves as it is.
\<close>

definition isAuthenticated ::
  "User option \<Rightarrow> 's \<Rightarrow> (User \<Rightarrow> 'a response \<times> 's) \<Rightarrow> 'a response \<times> 's" where
  "isAuthenticated req_user s next =
     (case req_user of None \<Rightarrow> (Message 401 ''Unauthorized'', s) | Some u \<Rightarrow> next u)"

text \<open>
  Modelled from the spec: \<open>countWords\<close> of \<open>server/ai.ts\<close>, which is not among the
  sources. The specification's rule: split on runs of whitespace, drop empty tokens,
  count the remainder; empty or whitespace-only text yields zero.
\<close>

definition server_countWords :: "jstring \<Rightarrow> nat" where
  "server_countWords t = length (filter (\<lambda>token. token \<noteq> []) (splitWhitespace t))"

record TransformMetadata =
  md_tone :: "jstring option"
  md_audience :: "jstring option"

record TransformResult =
  res_originalContent :: jstring
  res_transformedContent :: jstring
  res_contentType :: jstring
  res_originalWordCount :: nat
  res_transformedWordCount :: nat
  res_metadata :: TransformMetadata

text \<open>
  \<open>POST /api/transform\<close>. The generation provider \<open>transformContent\<close> (also of
  \<open>server/ai.ts\<close>) is a parameter: it returns the transformed text (\<open>Inr\<close>) or throws
  an error with a message (\<open>Inl\<close>). The second component of the result is the list of
  calls made to the provider.
\<close>

definition post_transform ::
  "(ContentValidation \<Rightarrow> string + jstring) \<Rightarrow> User option \<Rightarrow> json
     \<Rightarrow> TransformResult response \<times> ContentValidation list" where
  "post_transform transformContent req_user body =
     isAuthenticated req_user [] (\<lambda>u.
       case contentValidationSchema body of
         None \<Rightarrow> (Message 400 ''Validation failed'', [])
       | Some content \<Rightarrow>
           (case transformContent content of
              Inl msg \<Rightarrow> (Message 500 msg, [content])
            | Inr transformed \<Rightarrow>
                (Json 200
                   \<lparr>res_originalContent = cv_text content,
                    res_transformedContent = transformed,
                    res_contentType = cv_contentType content,
                    res_originalWordCount = server_countWords (cv_text content),
                    res_transformedWordCount = server_countWords transformed,
                    res_metadata = \<lparr>md_tone = cv_tone content,
                                    md_audience = cv_audience content\<rparr>\<rparr>,
                 [content])))"

text \<open>
  \<open>POST /api/contents\<close>: \<^verbatim>\<open>{ ...req.body, userId: req.user!.id }\<close> puts the
  caller's id in front of the body's own properties.
\<close>

definition post_contents ::
  "int \<Rightarrow> User option \<Rightarrow> json \<Rightarrow> Db \<Rightarrow> Content response \<times> Db" where
  "post_contents now req_user body db =
     isAuthenticated req_user db (\<lambda>u.
       let contentData = JObj ((''userId'', JNum (of_int (user_id u))) # objectEntries body)
       in case insertContentSchema contentData of
            None \<Rightarrow> (Message 400 ''Validation failed'', db)
          | Some data \<Rightarrow>
              (case createContent now data db of
                 (Inl msg, db') \<Rightarrow> (Message 500 msg, db')
               | (Inr savedContent, db') \<Rightarrow> (Json 201 savedContent, db')))"

text \<open>
  \<open>GET /api/contents\<close>; \<open>type_q\<close> is \<open>req.query.type\<close>. The empty string is falsy, like
  \<open>undefined\<close>.
\<close>

definition get_contents ::
  "User option \<Rightarrow> jstring option \<Rightarrow> Db \<Rightarrow> Content list response" where
  "get_contents req_user type_q db =
     fst (isAuthenticated req_user () (\<lambda>u.
       let uid = user_id u in
       case type_q of
         Some ctype \<Rightarrow>
           if ctype \<noteq> [] then
             if ctype \<notin> set [js ''expand'', js ''summarize'', js ''similar'']
             then (Message 400 ''Invalid content type'', ())
             else (Json 200 (getUserContentsByType db uid ctype), ())
           else (Json 200 (getUserContents db uid), ())
       | None \<Rightarrow> (Json 200 (getUserContents db uid), ())))"


text \<open>
  \<open>GET /api/contents/:id\<close>; \<open>id_param\<close> is \<open>req.params.id\<close>. An error of the query is
  caught and answered with 500.
\<close>

definition get_content_by_id ::
  "User option \<Rightarrow> jstring \<Rightarrow> Db \<Rightarrow> Content response" where
  "get_content_by_id req_user id_param db =
     fst (isAuthenticated req_user () (\<lambda>u.
       case parseInt id_param of
         None \<Rightarrow> (Message 400 ''Invalid content ID'', ())
       | Some contentId \<Rightarrow>
           (case getContent db contentId of
              Inl msg \<Rightarrow> (Message 500 msg, ())
            | Inr None \<Rightarrow> (Message 404 ''Content not found'', ())
            | Inr (Some content) \<Rightarrow>
                if userId content \<noteq> user_id u then (Message 403 ''Forbidden'', ())
                else (Json 200 content, ()))))"

text \<open>
  \<open>PATCH /api/profile\<close>: \<open>req.body\<close>, whatever JSON value it is, is passed to
  \<open>updateUser\<close>.
\<close>

definition patch_profile ::
  "Driver \<Rightarrow> User option \<Rightarrow> json \<Rightarrow> Db \<Rightarrow> User option response \<times> Db" where
  "patch_profile driver req_user body db =
     isAuthenticated req_user db (\<lambda>u.
       case updateUser driver (user_id u) (objectEntries body) db of
         (Inl msg, db') \<Rightarrow> (Message 500 msg, db')
       | (Inr updatedUser, db') \<Rightarrow> (Json 200 updatedUser, db'))"


section \<open>Example data\<close>

definition alice :: User where
  "alice = \<lparr>user_id = 1, username = js ''alice'', email = js ''alice@example.org'',
            password = js ''hash-a'', fullName = None, profileImage = None,
            theme = Some (js ''light''), user_createdAt = 100\<rparr>"

definition bob :: User where
  "bob = \<lparr>user_id = 2, username = js ''bob'', email = js ''bob@example.org'',
          password = js ''hash-b'', fullName = Some (js ''Bob''), profileImage = None,
          theme = None, user_createdAt = 110\<rparr>"

definition note1 :: Content where
  "note1 = \<lparr>userId = 1, title = js ''first'', originalContent = js ''a b c'',
            transformedContent = js ''a'', contentType = js ''summarize'',
            originalWordCount = 3, transformedWordCount = 1, metadata = None,
            content_id = 1, createdAt = 200\<rparr>"

definition note2 :: Content where
  "note2 = \<lparr>userId = 2, title = js ''second'', originalContent = js ''x'',
            transformedContent = js ''x y'', contentType = js ''expand'',
            originalWordCount = 1, transformedWordCount = 2, metadata = None,
            content_id = 2, createdAt = 300\<rparr>"

definition note3 :: Content where
  "note3 = \<lparr>userId = 1, title = js ''third'', originalContent = js ''p q'',
            transformedContent = js ''p q'', contentType = js ''template'',
            originalWordCount = 2, transformedWordCount = 2, metadata = None,
            content_id = 3, createdAt = 400\<rparr>"

definition exampleDb :: Db where
  "exampleDb = \<lparr>users = [alice, bob], contents = [note1, note2, note3],
                contents_id_seq = 4\<rparr>"

definition saveBody :: json where
  "saveBody = JObj [(''userId'', JNum 2), (''title'', JStr (js ''t'')),
     (''originalContent'', JStr (js ''one two'')),
     (''transformedContent'', JStr (js ''one'')),
     (''contentType'', JStr (js ''summarize'')),
     (''originalWordCount'', JNum 2), (''transformedWordCount'', JNum 1),
     (''metadata'', JNull), (''createdAt'', JNum 0)]"

definition savedRow :: Content where
  "savedRow = \<lparr>userId = 1, title = js ''t'', originalContent = js ''one two'',
     transformedContent = js ''one'', contentType = js ''summarize'',
     originalWordCount = 2, transformedWordCount = 1, metadata = None,
     content_id = 4, createdAt = 500\<rparr>"



definition echoProvider :: "ContentValidation \<Rightarrow> string + jstring" where
  "echoProvider content = Inr (cv_text content)"

definition parametersRequest :: "rat \<Rightarrow> rat \<Rightarrow> rat \<Rightarrow> rat \<Rightarrow> json" where
  "parametersRequest t p k m =
     JObj [(''text'', JStr (js ''hello'')), (''contentType'', JStr (js ''expand'')),
           (''aiParameters'',
            JObj [(''temperature'', JNum t), (''topP'', JNum p), (''topK'', JNum k),
                  (''maxOutputTokens'', JNum m)])]"

definition acceptsParameters :: "rat \<Rightarrow> rat \<Rightarrow> rat \<Rightarrow> rat \<Rightarrow> bool" where
  "acceptsParameters t p k m \<longleftrightarrow> contentValidationSchema (parametersRequest t p k m) \<noteq> None"

definition emptyTextRequest :: "(string \<times> json) list" where
  "emptyTextRequest = [(''text'', JStr []), (''contentType'', JStr (js ''expand''))]"

definition badTypeRequest :: "(string \<times> json) list" where
  "badTypeRequest = [(''text'', JStr (js ''hello'')), (''contentType'', JStr (js ''translate''))]"

definition spaceRequest :: json where
  "spaceRequest = JObj [(''text'', JStr (js '' '')), (''contentType'', JStr (js ''summarize''))]"

definition spaceContent :: ContentValidation where
  "spaceContent = \<lparr>cv_text = js '' '', cv_contentType = js ''summarize'', cv_tone = None,
      cv_audience = None, cv_aiParameters = None\<rparr>"






definition passwordPatch :: json where
  "passwordPatch = JObj [(''password'', JStr (js ''changed''))]"

definition createdAtPatch :: json where
  "createdAtPatch = JObj [(''createdAt'', JStr (js ''2020-01-01'')), (''theme'', JStr (js ''dark''))]"



section \<open>Properties of word counting\<close>

lemma runStarts_dropWhile: "runStarts True (dropWhile isWhiteSpace s) = runStarts True s"
  by (induction s) auto

lemma runStarts_append_ws:
  "\<forall>c \<in> set ys. isWhiteSpace c \<Longrightarrow> runStarts p (xs @ ys) = runStarts p xs"
proof (induction xs arbitrary: p)
  case Nil
  then show ?case by (induction ys arbitrary: p) auto
next
  case (Cons x xs)
  then show ?case by simp
qed

lemma trim_decomp:
  "\<exists>ys. (\<forall>c \<in> set ys. isWhiteSpace c) \<and> dropWhile isWhiteSpace s = trim s @ ys"
proof -
  let ?u = "dropWhile isWhiteSpace s"
  have "rev ?u = takeWhile isWhiteSpace (rev ?u) @ dropWhile isWhiteSpace (rev ?u)"
    by simp
  then have "?u = trim s @ rev (takeWhile isWhiteSpace (rev ?u))"
    unfolding trim_def by (metis rev_append rev_rev_ident)
  moreover have "\<forall>c \<in> set (rev (takeWhile isWhiteSpace (rev ?u))). isWhiteSpace c"
    by (auto dest: set_takeWhileD)
  ultimately show ?thesis by blast
qed

lemma maximalRuns_trim: "maximalRuns (trim s) = maximalRuns s"
proof -
  obtain ys where ys: "\<forall>c \<in> set ys. isWhiteSpace c"
    and eq: "dropWhile isWhiteSpace s = trim s @ ys"
    using trim_decomp by blast
  have "runStarts True s = runStarts True (trim s @ ys)"
    using runStarts_dropWhile [of s] eq by simp
  then show ?thesis
    using runStarts_append_ws [OF ys] by (simp add: maximalRuns_def)
qed

text \<open>
  The non-empty pieces of a split are the runs: one for the piece under construction
  if it has a character already, and one for every run that starts later.
\<close>

lemma splitFrom_nonempty_count:
  "length (filter (\<lambda>w. w \<noteq> []) (splitFrom cur s))
     = (if cur = [] then 0 else 1) + runStarts (cur = []) s"
proof (induction cur s rule: splitFrom.induct)
  case (1 cur)
  then show ?case by simp
next
  case (2 cur c cs)
  then show ?case
    by (cases "isWhiteSpace c"; cases "cur = []") (simp_all add: runStarts_dropWhile)
qed

text \<open>A text that neither begins nor ends with white space splits without empty pieces.\<close>

lemma splitFrom_no_empty:
  "(s = [] \<longrightarrow> cur \<noteq> []) \<Longrightarrow>
   (s \<noteq> [] \<longrightarrow> \<not> isWhiteSpace (last s) \<and> (cur = [] \<longrightarrow> \<not> isWhiteSpace (hd s))) \<Longrightarrow>
   [] \<notin> set (splitFrom cur s)"
proof (induction cur s rule: splitFrom.induct)
  case (1 cur)
  then show ?case by simp
next
  case (2 cur c cs)
  show ?case
  proof (cases "isWhiteSpace c")
    case True
    with 2(4) have cur: "cur \<noteq> []" by auto
    from True 2(4) have cs: "cs \<noteq> []" "\<not> isWhiteSpace (last cs)" by (auto split: if_splits)
    let ?d = "dropWhile isWhiteSpace cs"
    have d: "?d \<noteq> []" using cs by (metis dropWhile_eq_Nil_conv last_in_set)
    have "cs = takeWhile isWhiteSpace cs @ ?d" by simp
    then have "last cs = last ?d" using d by (metis last_appendR)
    with cs d have "\<not> isWhiteSpace (last ?d)" "\<not> isWhiteSpace (hd ?d)"
      by (simp_all add: hd_dropWhile)
    with d have "[] \<notin> set (splitFrom [] ?d)"
      using 2(1) [OF True] by simp
    with True cur show ?thesis by simp
  next
    case False
    have "[] \<notin> set (splitFrom (c # cur) cs)"
      using 2(2) [OF False] 2(4) by (auto split: if_splits)
    with False show ?thesis by simp
  qed
qed

lemma trim_ends:
  assumes "trim s \<noteq> []"
  shows "\<not> isWhiteSpace (hd (trim s))" "\<not> isWhiteSpace (last (trim s))"
proof -
  let ?u = "dropWhile isWhiteSpace s"
  let ?v = "dropWhile isWhiteSpace (rev ?u)"
  from assms have v: "?v \<noteq> []" by (simp add: trim_def)
  have u: "?u \<noteq> []"
  proof
    assume "?u = []"
    then have "?v = []" by (simp only: rev.simps dropWhile.simps)
    with v show False by simp
  qed
  have "last (trim s) = hd ?v" using v by (simp add: trim_def last_rev)
  then show "\<not> isWhiteSpace (last (trim s))" using v by (simp add: hd_dropWhile)
  have "rev ?u = takeWhile isWhiteSpace (rev ?u) @ ?v" by simp
  then have "last (rev ?u) = last ?v" using v by (metis last_appendR)
  then have "hd (trim s) = hd ?u" using u v by (simp add: trim_def hd_rev last_rev)
  then show "\<not> isWhiteSpace (hd (trim s))" using u by (simp add: hd_dropWhile)
qed

lemma trim_Nil_iff: "trim s = [] \<longleftrightarrow> (\<forall>c \<in> set s. isWhiteSpace c)"
proof
  assume "trim s = []"
  then have d: "\<forall>c \<in> set (dropWhile isWhiteSpace s). isWhiteSpace c"
    by (simp add: trim_def)
  show "\<forall>c \<in> set s. isWhiteSpace c"
  proof
    fix c assume "c \<in> set s"
    then have "c \<in> set (takeWhile isWhiteSpace s) \<or> c \<in> set (dropWhile isWhiteSpace s)"
      by (metis Un_iff set_append takeWhile_dropWhile_id)
    with d show "isWhiteSpace c" by (auto dest: set_takeWhileD)
  qed
next
  assume "\<forall>c \<in> set s. isWhiteSpace c"
  then show "trim s = []" by (auto simp: trim_def dest: set_dropWhileD)
qed

lemma WordCounter_runs: "WordCounter t = maximalRuns t"
proof (cases "t = []")
  case True
  then show ?thesis by (simp add: WordCounter_def maximalRuns_def)
next
  case False
  then have "WordCounter t = runStarts True (trim t)"
    by (simp add: WordCounter_def splitWhitespace_def splitFrom_nonempty_count)
  then show ?thesis using maximalRuns_trim [of t] by (simp add: maximalRuns_def)
qed

lemma countWords_runs: "countWords t = maximalRuns t"
proof (cases "trim t = []")
  case True
  then have "maximalRuns (trim t) = 0" by (simp add: maximalRuns_def)
  with True show ?thesis using maximalRuns_trim [of t] by (simp add: countWords_def)
next
  case False
  have "[] \<notin> set (splitFrom [] (trim t))"
    using False trim_ends [OF False] by (intro splitFrom_no_empty) auto
  then have "filter (\<lambda>w. w \<noteq> []) (splitFrom [] (trim t)) = splitFrom [] (trim t)"
    by (auto simp: filter_id_conv)
  then have "length (splitFrom [] (trim t)) = runStarts True (trim t)"
    using splitFrom_nonempty_count [of "[]" "trim t"] by simp
  with False show ?thesis
    using maximalRuns_trim [of t] by (simp add: countWords_def splitWhitespace_def maximalRuns_def)
qed

lemma whitespace_only_counts:
  assumes "\<forall>c \<in> set t. isWhiteSpace c"
  shows "countWords t = 0" "WordCounter t = 0"
proof -
  from assms have e: "trim t = []" by (simp add: trim_Nil_iff)
  then show "countWords t = 0" by (simp add: countWords_def)
  from e show "WordCounter t = 0"
    by (simp add: WordCounter_def splitWhitespace_def)
qed

lemma the_cat_sat:
  "countWords (js ''The cat sat on the mat.'') = 6"
  "WordCounter (js ''The cat sat on the mat.'') = 6"
  by (simp_all add: countWords_def WordCounter_def trim_def splitWhitespace_def
        isWhiteSpace_def js_def)

text \<open>
  Claim C4. For every text, the client's word count (\<open>countWords\<close> of the tools and the
  count shown by \<open>WordCounter\<close>) is the number of maximal runs of non-white-space
  characters; it is 0 when the text is empty or consists of white space only; and
  "The cat sat on the mat." has 6 words.
\<close>

theorem word_count_is_number_of_runs:
  "countWords t = maximalRuns t \<and> WordCounter t = maximalRuns t \<and>
   ((\<forall>c \<in> set t. isWhiteSpace c) \<longrightarrow> countWords t = 0 \<and> WordCounter t = 0) \<and>
   countWords (js ''The cat sat on the mat.'') = 6 \<and>
   WordCounter (js ''The cat sat on the mat.'') = 6"
  using countWords_runs [of t] WordCounter_runs [of t] whitespace_only_counts [of t]
    the_cat_sat
  by blast

theorem word_count_is_number_of_runs_witness:
  "list_all isWhiteSpace (js ''  '') \<and>
   countWords (js ''  '') = 0 \<and> WordCounter (js ''  '') = 0 \<and>
   countWords (js '' a  b '') = maximalRuns (js '' a  b '') \<and>
   maximalRuns (js '' a  b '') = 2"
proof -
  have h: "\<forall>c \<in> set (js ''  ''). isWhiteSpace c"
    by (simp add: js_def isWhiteSpace_def)
  have r: "maximalRuns (js '' a  b '') = 2"
    by (simp add: maximalRuns_def js_def isWhiteSpace_def)
  show ?thesis
    using h r word_count_is_number_of_runs [of "js ''  ''"]
      word_count_is_number_of_runs [of "js '' a  b ''"]
    by (simp add: list_all_iff)
qed

section \<open>Properties of \<open>parseInt\<close>\<close>

lemma digit_cases:
  "d < 10 \<Longrightarrow> d = 0 \<or> d = 1 \<or> d = 2 \<or> d = 3 \<or> d = 4 \<or> d = 5 \<or> d = 6 \<or> d = 7 \<or> d = 8 \<or> d = (9::nat)"
  by arith

lemma digitChar_props:
  assumes "d < 10"
  shows "digitValue (digitChar d) = Some d" "\<not> isWhiteSpace (digitChar d)"
    "digitChar d \<noteq> 0x2B" "digitChar d \<noteq> 0x2D" "digitChar d \<noteq> 0x78" "digitChar d \<noteq> 0x58"
proof -
  from digit_cases [OF assms]
  show "digitValue (digitChar d) = Some d"
    by (elim disjE) (simp_all add: digitChar_def digitValue_def)
  from digit_cases [OF assms]
  show "\<not> isWhiteSpace (digitChar d)"
    by (elim disjE) (simp_all add: digitChar_def isWhiteSpace_def)
  from digit_cases [OF assms]
  show "digitChar d \<noteq> 0x2B" "digitChar d \<noteq> 0x2D" "digitChar d \<noteq> 0x78" "digitChar d \<noteq> 0x58"
    by (elim disjE; simp add: digitChar_def)+
qed

lemma decimal_digits: "c \<in> set (decimal n) \<Longrightarrow> \<exists>d < 10. c = digitChar d"
proof (induction n rule: decimal.induct)
  case (1 n)
  show ?case
  proof (cases "n < 10")
    case True
    with 1(2) show ?thesis by (auto simp: decimal.simps [of n])
  next
    case False
    then have "decimal n = decimal (n div 10) @ [digitChar (n mod 10)]"
      by (simp add: decimal.simps [of n])
    with 1(2) have "c \<in> set (decimal (n div 10)) \<or> c = digitChar (n mod 10)" by auto
    then show ?thesis
    proof
      assume "c \<in> set (decimal (n div 10))"
      with 1(1) [OF False] show ?thesis .
    next
      assume "c = digitChar (n mod 10)"
      moreover have "n mod 10 < 10" by simp
      ultimately show ?thesis by blast
    qed
  qed
qed

lemma decimal_nonempty: "decimal n \<noteq> []"
  by (simp add: decimal.simps [of n])

lemma radixValue_snoc:
  "radixValue R (Z @ [c]) = radixValue R Z * R + (case digitValue c of None \<Rightarrow> 0 | Some d \<Rightarrow> d)"
  by (simp add: radixValue_def)

lemma radixValue_decimal: "radixValue 10 (decimal n) = n"
proof (induction n rule: decimal.induct)
  case (1 n)
  show ?case
  proof (cases "n < 10")
    case True
    then have "decimal n = [digitChar n]" by (simp add: decimal.simps [of n])
    with True show ?thesis by (simp add: radixValue_def digitChar_props)
  next
    case False
    have "n mod 10 < 10" by simp
    from False have "decimal n = decimal (n div 10) @ [digitChar (n mod 10)]"
      by (simp add: decimal.simps [of n])
    then have "radixValue 10 (decimal n) = radixValue 10 (decimal (n div 10)) * 10 + n mod 10"
      using digitChar_props(1) [OF \<open>n mod 10 < 10\<close>] by (simp add: radixValue_snoc)
    with 1 [OF False] show ?thesis by simp
  qed
qed

lemma parseInt_decimal: "parseInt (decimal n) = Some (int n)"
proof -
  let ?s = "decimal n"
  have dig: "\<And>c. c \<in> set ?s \<Longrightarrow> \<exists>d < 10. c = digitChar d" by (rule decimal_digits)
  have ne: "?s \<noteq> []" by (rule decimal_nonempty)
  then have "hd ?s \<in> set ?s" by simp
  from dig [OF this] obtain d where d: "d < 10" "hd ?s = digitChar d" by blast
  from digitChar_props [OF d(1)] d(2)
  have h: "\<not> isWhiteSpace (hd ?s)" "hd ?s \<noteq> 0x2B" "hd ?s \<noteq> 0x2D" by simp_all
  from h(1) have S: "dropWhile isWhiteSpace ?s = ?s" by (simp add: dropWhile_eq_self_iff)
  have nox: "0x78 \<notin> set ?s" "0x58 \<notin> set ?s"
  proof -
    show "0x78 \<notin> set ?s"
    proof
      assume "0x78 \<in> set ?s"
      from dig [OF this] obtain e where e: "e < 10" "0x78 = digitChar e" by blast
      from digitChar_props(5) [OF e(1)] e(2) show False by simp
    qed
    show "0x58 \<notin> set ?s"
    proof
      assume "0x58 \<in> set ?s"
      from dig [OF this] obtain e where e: "e < 10" "0x58 = digitChar e" by blast
      from digitChar_props(6) [OF e(1)] e(2) show False by simp
    qed
  qed
  have sub: "set (take 2 ?s) \<subseteq> set ?s" by (rule set_take_subset)
  have hex: "take 2 ?s \<noteq> [0x30, 0x78]" "take 2 ?s \<noteq> [0x30, 0x58]"
  proof -
    show "take 2 ?s \<noteq> [0x30, 0x78]"
    proof
      assume "take 2 ?s = [0x30, 0x78]"
      then have "0x78 \<in> set (take 2 ?s)" by simp
      with sub nox(1) show False by blast
    qed
    show "take 2 ?s \<noteq> [0x30, 0x58]"
    proof
      assume "take 2 ?s = [0x30, 0x58]"
      then have "0x58 \<in> set (take 2 ?s)" by simp
      with sub nox(2) show False by blast
    qed
  qed
  have "\<forall>c \<in> set ?s. isRadixDigit 10 c"
  proof
    fix c assume "c \<in> set ?s"
    from dig [OF this] obtain e where "e < 10" "c = digitChar e" by blast
    then show "isRadixDigit 10 c" by (simp add: isRadixDigit_def digitChar_props(1))
  qed
  then have Z: "takeWhile (isRadixDigit 10) ?s = ?s" by (simp only: takeWhile_eq_all_conv)
  have sg: "(if ?s \<noteq> [] \<and> hd ?s = 0x2D then - 1 else 1 :: int) = 1"
    using h(3) by simp
  have s1: "(if ?s \<noteq> [] \<and> (hd ?s = 0x2B \<or> hd ?s = 0x2D) then tl ?s else ?s) = ?s"
    using h(2,3) by simp
  have hx: "(take 2 ?s = [0x30, 0x78] \<or> take 2 ?s = [0x30, 0x58]) = False"
    using hex by simp
  have "parseInt ?s = (if ?s = [] then None else Some (1 * int (radixValue 10 ?s)))"
    by (simp only: parseInt_def Let_def S sg s1 hx if_False Z)
  with ne show ?thesis by (simp only: radixValue_decimal if_False mult_1)
qed

lemma decimal_example: "decimal 120 = js ''120''"
  by (simp add: js_def digitChar_def decimal.simps)

section \<open>Properties of the schema and the storage\<close>


lemma z_int32_of_int:
  "z_int32 (Some (JNum (of_int i))) =
     (if - 2147483648 \<le> i \<and> i \<le> 2147483647 then Some i else None)"
  by (auto simp: z_int32_def)



lemma insertContentSchema_SomeD:
  assumes "insertContentSchema j = Some d"
  shows "\<exists>kvs. j = JObj kvs \<and>
           z_int32 (map_of kvs ''userId'') = Some (userId d) \<and>
           z_string (map_of kvs ''title'') = Some (title d) \<and>
           z_string (map_of kvs ''originalContent'') = Some (originalContent d) \<and>
           z_string (map_of kvs ''transformedContent'') = Some (transformedContent d) \<and>
           z_string (map_of kvs ''contentType'') = Some (contentType d) \<and>
           z_int32 (map_of kvs ''originalWordCount'') = Some (originalWordCount d) \<and>
           z_int32 (map_of kvs ''transformedWordCount'') = Some (transformedWordCount d) \<and>
           z_nullable_optional z_string (map_of kvs ''metadata'') = Some (metadata d)"
  using assms
  by (cases j rule: insertContentSchema.cases) (auto simp: bind_eq_Some_conv)

lemma createContent_InrD:
  assumes "createContent now d db = (Inr saved, db')"
  shows "userId saved = userId d" "title saved = title d"
    "originalContent saved = originalContent d"
    "transformedContent saved = transformedContent d"
    "contentType saved = contentType d"
    "originalWordCount saved = originalWordCount d"
    "transformedWordCount saved = transformedWordCount d"
    "metadata saved = metadata d"
    "content_id saved = contents_id_seq db" "createdAt saved = now"
    "contents db' = contents db @ [saved]" "users db' = users db"
    "userId d \<in> set (map user_id (users db))"
  using assms by (auto simp: createContent_def Let_def split: if_splits)

lemma find_distinct_key:
  "distinct (map f xs) \<Longrightarrow> x \<in> set xs \<Longrightarrow> find (\<lambda>y. f y = f x) xs = Some x"
  by (induction xs) (auto simp: image_iff)

lemma find_absent_key: "k \<notin> f ` set xs \<Longrightarrow> find (\<lambda>y. f y = k) xs = None"
  by (induction xs) auto

section \<open>The save endpoint\<close>

lemma post_contents_201D:
  assumes "post_contents now (Some u) body db = (Json 201 saved, db')"
  shows "\<exists>d. insertContentSchema
               (JObj ((''userId'', JNum (of_int (user_id u))) # objectEntries body)) = Some d \<and>
             createContent now d db = (Inr saved, db')"
  using assms
  by (auto simp: post_contents_def isAuthenticated_def Let_def
           split: option.splits prod.splits sum.splits)

text \<open>
  Claim C1. Whenever the save endpoint answers an authenticated caller with 201, the
  record that was validated, appended to the table and returned has the caller's id as
  its \<open>userId\<close>, whatever the request body holds under \<open>userId\<close>.
\<close>

theorem saved_userId_is_caller:
  assumes "post_contents now (Some u) body db = (Json 201 saved, db')"
  shows "userId saved = user_id u \<and> contents db' = contents db @ [saved]"
proof -
  from post_contents_201D [OF assms] obtain d where
    v: "insertContentSchema
          (JObj ((''userId'', JNum (of_int (user_id u))) # objectEntries body)) = Some d"
    and c: "createContent now d db = (Inr saved, db')" by blast
  from insertContentSchema_SomeD [OF v]
  have "z_int32 (Some (JNum (of_int (user_id u)))) = Some (userId d)" by auto
  then have "userId d = user_id u"
    by (auto simp: z_int32_of_int split: if_splits)
  with createContent_InrD(1,11) [OF c] show ?thesis by simp
qed

text \<open>The body names user 2; the caller is user 1, and so is the owner of the saved row.\<close>

theorem saved_userId_is_caller_witness:
  "post_contents 500 (Some alice) saveBody exampleDb =
     (Json 201 savedRow,
      exampleDb\<lparr>contents_id_seq := 5, contents := [note1, note2, note3, savedRow]\<rparr>) \<and>
   map_of (objectEntries saveBody) ''userId'' = Some (JNum 2) \<and>
   userId savedRow = user_id alice \<and> user_id alice = 1"
proof -
  have h: "post_contents 500 (Some alice) saveBody exampleDb =
     (Json 201 savedRow,
      exampleDb\<lparr>contents_id_seq := 5, contents := [note1, note2, note3, savedRow]\<rparr>)"
    by (simp add: post_contents_def isAuthenticated_def saveBody_def savedRow_def
      exampleDb_def alice_def bob_def createContent_def z_int32_def z_nullable_optional_def
      note1_def note2_def note3_def Let_def)
  show ?thesis
    using h saved_userId_is_caller [OF h] by (simp add: saveBody_def alice_def)
qed





section \<open>Reading content\<close>

text \<open>
  Claim C2, as stated, fails: no record is stored under the id 99999999999, and the
  answer is not 404 but 500, since the query fails for an id outside the range of the
  id column.
\<close>

theorem content_id_out_of_range:
  "parseInt (js ''99999999999'') = Some 99999999999 \<and>
   99999999999 \<notin> content_id ` set (contents exampleDb) \<and>
   get_content_by_id (Some alice) (js ''99999999999'') exampleDb
     \<noteq> Message 404 ''Content not found'' \<and>
   status (get_content_by_id (Some alice) (js ''99999999999'') exampleDb) = 500"
proof -
  have p: "parseInt (js ''99999999999'') = Some 99999999999"
    by (simp add: parseInt_def js_def isWhiteSpace_def isRadixDigit_def digitValue_def
      radixValue_def Let_def)
  show ?thesis
    using p
    by (simp add: get_content_by_id_def isAuthenticated_def getContent_def int4_def
        exampleDb_def note1_def note2_def note3_def)
qed

text \<open>
  Claim C2, amended. Let the id parameter parse to \<open>cid\<close>, a number of the range of
  the id column. If a stored record with that id (the primary key) belongs to another
  user than the caller, the answer is 403 with the message only; if no stored record
  has that id, the answer is 404. The decimal numeral of a number parses to it.
\<close>

theorem content_of_other_user_forbidden:
  assumes "parseInt id_param = Some cid" and "int4 cid"
  shows "(\<forall>c. c \<in> set (contents db) \<and> distinct (map content_id (contents db)) \<and>
              content_id c = cid \<and> userId c \<noteq> user_id u \<longrightarrow>
            get_content_by_id (Some u) id_param db = Message 403 ''Forbidden'') \<and>
         (cid \<notin> content_id ` set (contents db) \<longrightarrow>
            get_content_by_id (Some u) id_param db = Message 404 ''Content not found'') \<and>
         parseInt (decimal n) = Some (int n)"
proof (intro conjI allI impI)
  fix c
  assume a: "c \<in> set (contents db) \<and> distinct (map content_id (contents db)) \<and>
              content_id c = cid \<and> userId c \<noteq> user_id u"
  then have "getContent db cid = Inr (Some c)"
    using find_distinct_key [of content_id "contents db" c] assms(2)
    by (auto simp: getContent_def)
  with a assms show "get_content_by_id (Some u) id_param db = Message 403 ''Forbidden''"
    by (simp add: get_content_by_id_def isAuthenticated_def)
next
  assume "cid \<notin> content_id ` set (contents db)"
  then have "getContent db cid = Inr None"
    using assms(2) by (simp add: getContent_def find_absent_key)
  with assms show "get_content_by_id (Some u) id_param db = Message 404 ''Content not found''"
    by (simp add: get_content_by_id_def isAuthenticated_def)
next
  show "parseInt (decimal n) = Some (int n)" by (rule parseInt_decimal)
qed

theorem content_of_other_user_forbidden_witness:
  "parseInt (js ''2'') = Some 2 \<and> int4 2 \<and> note2 \<in> set (contents exampleDb) \<and>
   distinct (map content_id (contents exampleDb)) \<and> content_id note2 = 2 \<and>
   userId note2 \<noteq> user_id alice \<and>
   get_content_by_id (Some alice) (js ''2'') exampleDb = Message 403 ''Forbidden'' \<and>
   parseInt (js ''9'') = Some 9 \<and> int4 9 \<and> 9 \<notin> content_id ` set (contents exampleDb) \<and>
   get_content_by_id (Some alice) (js ''9'') exampleDb = Message 404 ''Content not found''"
proof -
  have p2: "parseInt (js ''2'') = Some 2"
    by (simp add: parseInt_def js_def isWhiteSpace_def isRadixDigit_def digitValue_def
      radixValue_def Let_def)
  have p9: "parseInt (js ''9'') = Some 9"
    by (simp add: parseInt_def js_def isWhiteSpace_def isRadixDigit_def digitValue_def
      radixValue_def Let_def)
  have r: "int4 2" "int4 9" by (simp_all add: int4_def)
  have h: "note2 \<in> set (contents exampleDb)" "distinct (map content_id (contents exampleDb))"
    "content_id note2 = 2" "userId note2 \<noteq> user_id alice"
    "9 \<notin> content_id ` set (contents exampleDb)"
    by (simp_all add: exampleDb_def note1_def note2_def note3_def alice_def)
  show ?thesis
    using h p2 p9 r content_of_other_user_forbidden [OF p2 r(1), of exampleDb alice]
      content_of_other_user_forbidden [OF p9 r(2), of exampleDb alice]
    by blast
qed

lemma other_filters_accepted:
  "ct \<in> set [js ''expand'', js ''summarize'', js ''similar''] \<Longrightarrow>
   get_contents (Some u) (Some ct) db = Json 200 (getUserContentsByType db (user_id u) ct)"
  by (auto simp add: get_contents_def isAuthenticated_def js_def)

lemma unknown_filter_rejected:
  "ct \<notin> set contentTypes \<Longrightarrow> ct \<noteq> [] \<Longrightarrow>
   get_contents (Some u) (Some ct) db = Message 400 ''Invalid content type''"
  by (auto simp add: get_contents_def isAuthenticated_def contentTypes_def)

text \<open>
  Claim C5 at the tag \<open>template\<close>: it is one of the content types of the shared schema,
  and the list endpoint answers the filter \<open>type=template\<close> with 400 for every caller
  and every database. The three other tags are accepted (\<open>other_filters_accepted\<close>).
\<close>

theorem template_filter_rejected:
  "js ''template'' \<in> set contentTypes \<and>
   get_contents (Some u) (Some (js ''template'')) db = Message 400 ''Invalid content type''"
  by (simp add: get_contents_def isAuthenticated_def contentTypes_def js_def)

section \<open>The transform endpoint\<close>

lemma validation_failure_400:
  "contentValidationSchema body = None \<Longrightarrow>
   post_transform provider (Some u) body = (Message 400 ''Validation failed'', [])"
  by (simp add: post_transform_def isAuthenticated_def)

lemma z_string_min_empty: "0 < n \<Longrightarrow> z_string_min n (Some (JStr [])) = None"
  by (simp add: z_string_min_def)

lemma contentTypeSchema_None:
  "\<forall>ct \<in> set contentTypes. v \<noteq> Some (JStr ct) \<Longrightarrow> contentTypeSchema v = None"
  by (cases v rule: z_string.cases) (auto simp: contentTypeSchema_def z_enum_def)

text \<open>
  Claim C3. A transform request whose \<open>text\<close> is the empty string, or whose
  \<open>contentType\<close> is none of the four content types (absent and non-string values
  included), fails validation: the answer is 400 and the provider is not called.
\<close>

theorem invalid_transform_request_rejected:
  assumes "map_of kvs ''text'' = Some (JStr []) \<or>
           (\<forall>ct \<in> set contentTypes. map_of kvs ''contentType'' \<noteq> Some (JStr ct))"
  shows "contentValidationSchema (JObj kvs) = None \<and>
         post_transform provider (Some u) (JObj kvs) = (Message 400 ''Validation failed'', [])"
proof -
  have "contentValidationSchema (JObj kvs) = None"
    using assms
  proof
    assume "map_of kvs ''text'' = Some (JStr [])"
    then show ?thesis by (simp add: z_string_min_empty)
  next
    assume "\<forall>ct \<in> set contentTypes. map_of kvs ''contentType'' \<noteq> Some (JStr ct)"
    then have "contentTypeSchema (map_of kvs ''contentType'') = None"
      by (rule contentTypeSchema_None)
    then show ?thesis by (simp add: bind_eq_None_conv)
  qed
  then show ?thesis by (simp add: validation_failure_400)
qed

lemma acceptsParameters_iff:
  "acceptsParameters t p k m \<longleftrightarrow>
     0 \<le> t \<and> t \<le> 1 \<and> 0 \<le> p \<and> p \<le> 1 \<and> 1 \<le> k \<and> k \<le> 100 \<and> 50 \<le> m \<and> m \<le> 8192"
  by (auto simp: acceptsParameters_def parametersRequest_def z_string_min_def js_def
        contentTypeSchema_def z_enum_def contentTypes_def z_optional_def z_default_def
        z_number_min_max_def)

text \<open>
  Claim C6. The transform validation accepts the generation parameters at their lower
  bounds (0, 0, 1, 50) and at their upper bounds (1, 1, 100, 8192), and rejects a request
  in which one parameter is one unit below its lower or above its upper bound; a
  rejected request is answered with 400 and no provider call.
\<close>

theorem parameter_bounds:
  "acceptsParameters 0 0 1 50 \<and> acceptsParameters 1 1 100 8192 \<and>
   \<not> acceptsParameters (- 1) 0 1 50 \<and> \<not> acceptsParameters 2 1 100 8192 \<and>
   \<not> acceptsParameters 0 (- 1) 1 50 \<and> \<not> acceptsParameters 1 2 100 8192 \<and>
   \<not> acceptsParameters 0 0 0 50 \<and> \<not> acceptsParameters 1 1 101 8192 \<and>
   \<not> acceptsParameters 0 0 1 49 \<and> \<not> acceptsParameters 1 1 100 8193 \<and>
   (\<not> acceptsParameters t p k m \<longrightarrow>
      post_transform provider (Some u) (parametersRequest t p k m)
        = (Message 400 ''Validation failed'', []))"
proof -
  have "\<not> acceptsParameters t p k m \<longrightarrow>
      post_transform provider (Some u) (parametersRequest t p k m)
        = (Message 400 ''Validation failed'', [])"
    by (simp add: acceptsParameters_def validation_failure_400)
  moreover have "acceptsParameters 0 0 1 50" "acceptsParameters 1 1 100 8192"
    "\<not> acceptsParameters (- 1) 0 1 50" "\<not> acceptsParameters 2 1 100 8192"
    "\<not> acceptsParameters 0 (- 1) 1 50" "\<not> acceptsParameters 1 2 100 8192"
    "\<not> acceptsParameters 0 0 0 50" "\<not> acceptsParameters 1 1 101 8192"
    "\<not> acceptsParameters 0 0 1 49" "\<not> acceptsParameters 1 1 100 8193"
    by (simp_all add: acceptsParameters_iff)
  ultimately show ?thesis by blast
qed

theorem parameter_bounds_witness:
  "\<not> acceptsParameters 0 0 101 50 \<and>
   post_transform echoProvider (Some alice) (parametersRequest 0 0 101 50)
     = (Message 400 ''Validation failed'', [])"
proof -
  have h: "\<not> acceptsParameters 0 0 101 50" by (simp add: acceptsParameters_iff)
  show ?thesis
    using h parameter_bounds [of 0 0 101 50 echoProvider alice] by blast
qed

theorem invalid_transform_request_rejected_witness:
  "map_of emptyTextRequest ''text'' = Some (JStr []) \<and>
   post_transform echoProvider (Some alice) (JObj emptyTextRequest)
     = (Message 400 ''Validation failed'', []) \<and>
   list_all (\<lambda>ct. map_of badTypeRequest ''contentType'' \<noteq> Some (JStr ct)) contentTypes \<and>
   post_transform echoProvider (Some alice) (JObj badTypeRequest)
     = (Message 400 ''Validation failed'', [])"
proof -
  have a: "map_of emptyTextRequest ''text'' = Some (JStr [])"
    by (simp add: emptyTextRequest_def)
  have b: "\<forall>ct \<in> set contentTypes. map_of badTypeRequest ''contentType'' \<noteq> Some (JStr ct)"
    by (simp add: badTypeRequest_def contentTypes_def js_def)
  show ?thesis
    using a b invalid_transform_request_rejected [of emptyTextRequest echoProvider alice]
      invalid_transform_request_rejected [of badTypeRequest echoProvider alice]
    by (simp add: list_all_iff)
qed

lemma whitespace_text_valid:
  "t \<noteq> [] \<Longrightarrow> ct \<in> set contentTypes \<Longrightarrow>
   contentValidationSchema (JObj [(''text'', JStr t), (''contentType'', JStr ct)])
     = Some \<lparr>cv_text = t, cv_contentType = ct, cv_tone = None, cv_audience = None,
             cv_aiParameters = None\<rparr>"
  by (cases t)
     (simp_all add: z_string_min_def contentTypeSchema_def z_enum_def z_optional_def)

lemma server_countWords_space: "server_countWords (js '' '') = 0"
  by (simp add: server_countWords_def splitWhitespace_def js_def isWhiteSpace_def)

text \<open>
  Claim C10. Every non-empty text with a valid content type passes the transform
  validation. For the text of one space with type \<open>summarize\<close>, validation succeeds,
  the provider is called once with the validated request, and when the provider
  returns a text the answer is 200 with an original word count of 0.
\<close>

theorem whitespace_text_reaches_provider:
  "(t \<noteq> [] \<and> ct \<in> set contentTypes \<longrightarrow>
      contentValidationSchema (JObj [(''text'', JStr t), (''contentType'', JStr ct)])
        = Some \<lparr>cv_text = t, cv_contentType = ct, cv_tone = None, cv_audience = None,
                cv_aiParameters = None\<rparr>) \<and>
   contentValidationSchema spaceRequest = Some spaceContent \<and>
   snd (post_transform provider (Some u) spaceRequest) = [spaceContent] \<and>
   (provider spaceContent = Inr out \<longrightarrow>
      fst (post_transform provider (Some u) spaceRequest)
        = Json 200 \<lparr>res_originalContent = js '' '', res_transformedContent = out,
                    res_contentType = js ''summarize'', res_originalWordCount = 0,
                    res_transformedWordCount = server_countWords out,
                    res_metadata = \<lparr>md_tone = None, md_audience = None\<rparr>\<rparr>)"
proof -
  have v: "contentValidationSchema spaceRequest = Some spaceContent"
    unfolding spaceRequest_def spaceContent_def
    by (rule whitespace_text_valid) (simp_all add: contentTypes_def js_def)
  show ?thesis
    using v whitespace_text_valid [of t ct] server_countWords_space
    by (auto simp: post_transform_def isAuthenticated_def spaceContent_def split: sum.splits)
qed

theorem whitespace_text_reaches_provider_witness:
  "js '' '' \<noteq> [] \<and> js ''summarize'' \<in> set contentTypes \<and>
   echoProvider spaceContent = Inr (js '' '') \<and>
   post_transform echoProvider (Some alice) spaceRequest
     = (Json 200 \<lparr>res_originalContent = js '' '', res_transformedContent = js '' '',
                    res_contentType = js ''summarize'', res_originalWordCount = 0,
                    res_transformedWordCount = 0,
                    res_metadata = \<lparr>md_tone = None, md_audience = None\<rparr>\<rparr>,
        [spaceContent])"
proof -
  have a: "js '' '' \<noteq> []" "js ''summarize'' \<in> set contentTypes"
    by (simp_all add: js_def contentTypes_def)
  have b: "echoProvider spaceContent = Inr (js '' '')"
    by (simp add: echoProvider_def spaceContent_def)
  show ?thesis
    using a b server_countWords_space
      whitespace_text_reaches_provider [of "js '' ''" "js ''summarize''" echoProvider alice "js '' ''"]
    by (simp add: prod_eq_iff)
qed

section \<open>Recent content\<close>










section \<open>Profile update\<close>


lemma setColumns_frame [simp]:
  "password (setColumns s r) = password r"
  "user_createdAt (setColumns s r) = user_createdAt r"
  by (simp_all add: setColumns_def)














lemma password_only_patch:
  "patch_profile driver (Some alice) passwordPatch exampleDb
     = (Message 500 ''No values to set'', exampleDb)"
  by (simp add: patch_profile_def isAuthenticated_def updateUser_def passwordPatch_def)

lemma createdAt_patch:
  "patch_profile driver (Some alice) createdAtPatch exampleDb
     = (Message 500 ''query failed'', exampleDb)"
  by (simp add: patch_profile_def isAuthenticated_def updateUser_def createdAtPatch_def
      setClause_def userColumns_def)

end
